theory Spec2Isabelle
  imports Main "HOL-Library.Sublist" "HOL-Library.Multiset"
begin

section \<open>JavaScript values\<close>

text \<open>
  The gateway (\<^verbatim>\<open>src/index.js\<close>) is a Moleculer service written in JavaScript. Its
  values are modelled by one datatype: the primitives, plain objects as lists of own
  enumerable properties (keys distinct, in insertion order), arrays, Node buffers (a list
  of bytes), readable streams (opaque, told apart by a number), functions (given by their
  source text) and regular expressions (source and flags). Numbers are integers; strings
  are lists of characters. Objects are plain data: no getters and no conversion methods
  of their own; what every plain object inherits from \<^verbatim>\<open>Object.prototype\<close> is modelled
  where the gateway reads or writes a property under a key it does not choose itself.
\<close>

datatype regexp = RegExp string string

datatype jsval =
    JUndefined
  | JNull
  | JBool bool
  | JNum int
  | JStr string
  | JObj "(string \<times> jsval) list"
  | JArr "jsval list"
  | JBuffer "nat list"
  | JStream nat
  | JRegExp regexp
  | JFunction string

type_synonym js_object = "(string \<times> jsval) list"

text \<open>Truthiness, as \<^verbatim>\<open>if (v)\<close>, \<^verbatim>\<open>a || b\<close> and \<^verbatim>\<open>a && b\<close> read a value.\<close>

fun truthy :: "jsval \<Rightarrow> bool" where
  "truthy JUndefined = False"
| "truthy JNull = False"
| "truthy (JBool b) = b"
| "truthy (JNum n) = (n \<noteq> 0)"
| "truthy (JStr s) = (s \<noteq> [])"
| "truthy _ = True"

definition js_or :: "jsval \<Rightarrow> jsval \<Rightarrow> jsval" where
  "js_or a b = (if truthy a then a else b)"

text \<open>\<^verbatim>\<open>typeof v\<close>.\<close>

fun typeof :: "jsval \<Rightarrow> string" where
  "typeof JUndefined = ''undefined''"
| "typeof (JBool b) = ''boolean''"
| "typeof (JNum n) = ''number''"
| "typeof (JStr s) = ''string''"
| "typeof (JFunction f) = ''function''"
| "typeof _ = ''object''"

text \<open>The type tests of lodash and Node that the gateway uses.\<close>

fun isObject :: "jsval \<Rightarrow> bool" where
  "isObject (JObj ps) = True"
| "isObject (JArr xs) = True"
| "isObject (JBuffer bs) = True"
| "isObject (JStream s) = True"
| "isObject (JRegExp r) = True"
| "isObject (JFunction f) = True"
| "isObject _ = False"

fun isString :: "jsval \<Rightarrow> bool" where
  "isString (JStr s) = True"
| "isString _ = False"

fun Array_isArray :: "jsval \<Rightarrow> bool" where
  "Array_isArray (JArr xs) = True"
| "Array_isArray _ = False"

fun Buffer_isBuffer :: "jsval \<Rightarrow> bool" where
  "Buffer_isBuffer (JBuffer bs) = True"
| "Buffer_isBuffer _ = False"

fun isStream :: "jsval \<Rightarrow> bool" where
  "isStream (JStream s) = True"
| "isStream _ = False"

text \<open>\<^verbatim>\<open>v == null\<close>: true of \<^verbatim>\<open>null\<close> and \<^verbatim>\<open>undefined\<close> only.\<close>

fun is_nullish :: "jsval \<Rightarrow> bool" where
  "is_nullish JUndefined = True"
| "is_nullish JNull = True"
| "is_nullish _ = False"

text \<open>
  \<^verbatim>\<open>v == "Buffer"\<close>, the loose comparison with that string literal. A string is compared
  as it is; a number or a boolean is compared with the number the literal converts to,
  which is NaN; \<^verbatim>\<open>null\<close> and \<^verbatim>\<open>undefined\<close> equal no string; an object is converted to a
  string first: an array to the join of its elements with commas (so only a one-element
  array can give a comma-free text), a buffer to the text of its bytes, a plain object to
  \<^verbatim>\<open>[object Object]\<close>, a regular expression and a function to their source text, which is
  never the bare word.
\<close>

fun loosely_Buffer :: "jsval \<Rightarrow> bool" where
  "loosely_Buffer (JStr s) = (s = ''Buffer'')"
| "loosely_Buffer (JArr [x]) = loosely_Buffer x"
| "loosely_Buffer (JBuffer bs) = (bs = [66, 117, 102, 102, 101, 114])"
| "loosely_Buffer _ = False"

subsection \<open>Objects\<close>

definition obj_get :: "js_object \<Rightarrow> string \<Rightarrow> jsval" where
  "obj_get ps k = (case map_of ps k of None \<Rightarrow> JUndefined | Some v \<Rightarrow> v)"

text \<open>\<^verbatim>\<open>v.type\<close> of a result value: only a plain object carries such a property.\<close>

fun get_type :: "jsval \<Rightarrow> jsval" where
  "get_type (JObj ps) = obj_get ps ''type''"
| "get_type _ = JUndefined"

text \<open>\<^verbatim>\<open>o[k] = v\<close> on a list of properties: an existing key keeps its place.\<close>

primrec assoc_set :: "'k \<Rightarrow> 'v \<Rightarrow> ('k \<times> 'v) list \<Rightarrow> ('k \<times> 'v) list" where
  "assoc_set k v [] = [(k, v)]"
| "assoc_set k v (p # ps) = (if fst p = k then (k, v) # ps else p # assoc_set k v ps)"

text \<open>The decimal text of an array index, as a property key.\<close>

definition digit :: "nat \<Rightarrow> char" where
  "digit d = char_of (of_char CHR ''0'' + d)"

fun decimal :: "nat \<Rightarrow> string" where
  "decimal n = (if 10 \<le> n then decimal (n div 10) @ [digit (n mod 10)] else [digit n])"

text \<open>
  The text of a value, as a template literal and \<^verbatim>\<open>RegExp.test\<close> convert their argument:
  a string as it is, an array as its elements joined by commas (nothing for \<^verbatim>\<open>null\<close> and
  \<^verbatim>\<open>undefined\<close>), a buffer as the text of its bytes, a function as its source text.
\<close>

fun join_commas :: "string list \<Rightarrow> string" where
  "join_commas [] = []"
| "join_commas [x] = x"
| "join_commas (x # y # ys) = x @ CHR '','' # join_commas (y # ys)"

fun ToString :: "jsval \<Rightarrow> string" where
  "ToString JUndefined = ''undefined''"
| "ToString JNull = ''null''"
| "ToString (JBool b) = (if b then ''true'' else ''false'')"
| "ToString (JNum n) = (if n < 0 then CHR ''-'' # decimal (nat (- n)) else decimal (nat n))"
| "ToString (JStr s) = s"
| "ToString (JObj ps) = ''[object Object]''"
| "ToString (JArr xs) = join_commas (map (\<lambda>x. if is_nullish x then [] else ToString x) xs)"
| "ToString (JBuffer bs) = map char_of bs"
| "ToString (JStream n) = ''[object Object]''"
| "ToString (JRegExp r) = (case r of RegExp src fl \<Rightarrow> CHR ''/'' # src @ CHR ''/'' # fl)"
| "ToString (JFunction src) = src"

text \<open>
  What a plain object inherits from \<^verbatim>\<open>Object.prototype\<close>: eleven built-in functions, and
  under \<^verbatim>\<open>__proto__\<close> an accessor whose getter gives the prototype itself (an object with
  no enumerable property of its own) and whose setter replaces the prototype of the
  object it is called on.
\<close>

definition native :: "string \<Rightarrow> jsval" where
  "native n = JFunction (''function '' @ n @ ''() { [native code] }'')"

definition Object_prototype :: js_object where
  "Object_prototype =
     [(''constructor'', native ''Object''),
      (''__defineGetter__'', native ''__defineGetter__''),
      (''__defineSetter__'', native ''__defineSetter__''),
      (''hasOwnProperty'', native ''hasOwnProperty''),
      (''__lookupGetter__'', native ''__lookupGetter__''),
      (''__lookupSetter__'', native ''__lookupSetter__''),
      (''isPrototypeOf'', native ''isPrototypeOf''),
      (''propertyIsEnumerable'', native ''propertyIsEnumerable''),
      (''toString'', native ''toString''),
      (''valueOf'', native ''valueOf''),
      (''__proto__'', JObj []),
      (''toLocaleString'', native ''toLocaleString'')]"

definition indexed :: "jsval list \<Rightarrow> js_object" where
  "indexed xs = zip (map decimal [0..<length xs]) xs"

text \<open>The own enumerable properties \<^verbatim>\<open>Object.assign\<close> copies from a source.\<close>

fun own_enumerable :: "jsval \<Rightarrow> js_object" where
  "own_enumerable (JObj ps) = ps"
| "own_enumerable (JArr xs) = indexed xs"
| "own_enumerable (JBuffer bs) = indexed (map (\<lambda>b. JNum (int b)) bs)"
| "own_enumerable (JStr s) = indexed (map (\<lambda>c. JStr [c]) s)"
| "own_enumerable _ = []"

text \<open>
  The object \<^verbatim>\<open>Object.assign\<close> writes to, here the parameters of the call: its own
  properties and its prototype (\<open>None\<close> for \<^verbatim>\<open>Object.prototype\<close>, which an object
  literal starts with). \<^verbatim>\<open>Object.assign\<close> stores each property of the source with an
  ordinary assignment \<^verbatim>\<open>target[k] = v\<close>. Under the key \<^verbatim>\<open>__proto__\<close> that assignment finds
  the inherited accessor, as long as the prototype chain leads to \<^verbatim>\<open>Object.prototype\<close>
  with no data property of that name on the way: its setter makes an object or \<^verbatim>\<open>null\<close>
  the new prototype and ignores every other value, and no property is stored. Under
  every other key the property is stored on the target itself.
\<close>

record params =
  p_props :: js_object
  p_proto :: "jsval option"

fun proto_accessor :: "jsval option \<Rightarrow> bool" where
  "proto_accessor None = True"
| "proto_accessor (Some JNull) = False"
| "proto_accessor (Some (JObj ps)) = (map_of ps ''__proto__'' = None)"
| "proto_accessor (Some v) = True"

definition assign_property :: "params \<Rightarrow> string \<times> jsval \<Rightarrow> params" where
  "assign_property t kv =
     (case kv of (k, v) \<Rightarrow>
        if k = ''__proto__'' \<and> proto_accessor (p_proto t)
        then (if isObject v \<or> v = JNull then t\<lparr>p_proto := Some v\<rparr> else t)
        else t\<lparr>p_props := assoc_set k v (p_props t)\<rparr>)"

definition Object_assign :: "params \<Rightarrow> js_object \<Rightarrow> params" where
  "Object_assign target src = foldl assign_property target src"

definition empty_object :: params where
  "empty_object = \<lparr>p_props = [], p_proto = None\<rparr>"

subsection \<open>Strings\<close>

text \<open>\<^verbatim>\<open>s.indexOf(c, from)\<close>: the first position of \<open>c\<close> at or after \<open>from\<close>.\<close>

definition indexOf :: "string \<Rightarrow> char \<Rightarrow> nat \<Rightarrow> nat option" where
  "indexOf s c from =
     (let rest = drop from s; n = length (takeWhile (\<lambda>x. x \<noteq> c) rest)
      in if n < length rest then Some (from + n) else None)"

definition endsWith :: "string \<Rightarrow> char \<Rightarrow> bool" where
  "endsWith s c = (s \<noteq> [] \<and> last s = c)"

definition startsWith :: "string \<Rightarrow> string \<Rightarrow> bool" where
  "startsWith s p = prefix p s"

text \<open>\<^verbatim>\<open>s.replace(/a/, "b")\<close>: the regular expression is not global, so only the first \<open>a\<close>.\<close>

fun replace_first :: "char \<Rightarrow> char \<Rightarrow> string \<Rightarrow> string" where
  "replace_first a b [] = []"
| "replace_first a b (x # xs) = (if x = a then b # xs else x # replace_first a b xs)"

text \<open>\<^verbatim>\<open>s.replace(/a/g, "b")\<close>: every \<open>a\<close>.\<close>

definition replace_all :: "char \<Rightarrow> char \<Rightarrow> string \<Rightarrow> string" where
  "replace_all a b s = map (\<lambda>x. if x = a then b else x) s"

section \<open>The data model of the gateway\<close>

text \<open>
  A request as the transport hands it over (with the payload still to be read from its
  stream) and as the body parsers update it (they set its body); a response
  as the record of what the gateway writes to it: the status code it assigns, the headers
  it sets one by one, the head it writes in one call (status and headers), the body and
  whether it ended the response. The transport takes every write.
\<close>

record request =
  req_method :: string
  req_url :: string
  req_headers :: js_object
  req_payload :: string
  req_body :: jsval

datatype body =
    NoBody
  | Text string
  | Bytes "nat list"
  | Piped nat
  | Json jsval "nat option"

record response =
  res_statusCode :: int
  res_headers :: js_object
  res_head :: "(int \<times> js_object) option"
  res_body :: body
  res_ended :: bool

definition setHeader :: "string \<Rightarrow> jsval \<Rightarrow> response \<Rightarrow> response" where
  "setHeader name v res = res\<lparr>res_headers := assoc_set name v (res_headers res)\<rparr>"

text \<open>
  \<^verbatim>\<open>res.writeHead(code, headers)\<close> converts the code to a 32-bit integer
  (\<^verbatim>\<open>statusCode |= 0\<close>) and throws a \<^verbatim>\<open>RangeError\<close> unless the result is from 100 to 999;
  \<open>None\<close> is that exception.
\<close>

definition to_int32 :: "int \<Rightarrow> int" where
  "to_int32 n = (n + 2147483648) mod 4294967296 - 2147483648"

definition writeHead :: "int \<Rightarrow> js_object \<Rightarrow> response \<Rightarrow> response option" where
  "writeHead code hs res =
     (if 100 \<le> to_int32 code \<and> to_int32 code \<le> 999
      then Some (res\<lparr>res_head := Some (to_int32 code, hs)\<rparr>)
      else None)"

definition end_with :: "body \<Rightarrow> response \<Rightarrow> response" where
  "end_with b res = res\<lparr>res_body := b, res_ended := True\<rparr>"

text \<open>The status line the response goes out with: the written head's, else the assigned one.\<close>

definition http_status :: "response \<Rightarrow> int" where
  "http_status res = (case res_head res of Some (code, hs) \<Rightarrow> code | None \<Rightarrow> res_statusCode res)"




text \<open>The invocation context the action runtime creates for a request.\<close>

record js_context =
  ctx_id :: string
  ctx_requestID :: string
  ctx_user :: jsval

text \<open>
  An error object, as far as the gateway reads it: the four properties the error handler
  picks (\<open>None\<close> where the object has no such property) and the context attached to it.
\<close>

record js_error =
  err_name :: "jsval option"
  err_message :: "jsval option"
  err_code :: "jsval option"
  err_data :: "jsval option"
  err_ctx :: "js_context option"

definition TypeError :: "string \<Rightarrow> js_error" where
  "TypeError msg =
     \<lparr>err_name = Some (JStr ''TypeError''), err_message = Some (JStr msg),
      err_code = None, err_data = None, err_ctx = None\<rparr>"

text \<open>
  Modelled from the spec: the class \<^verbatim>\<open>ServiceNotFoundError\<close> comes from the action
  runtime's error module (\<^verbatim>\<open>require("moleculer").Errors\<close>), which is not among the
  sources. The spec's error taxonomy gives the not-found kind (unmatched path,
  unresolvable or non-whitelisted action) the HTTP code 404. The message is the
  constructor's first argument, the name is the class's, and the second argument, the
  action, is kept as the error's data.
\<close>

definition ServiceNotFoundError :: "string \<Rightarrow> jsval \<Rightarrow> js_error" where
  "ServiceNotFoundError message action =
     \<lparr>err_name = Some (JStr ''ServiceNotFoundError''), err_message = Some (JStr message),
      err_code = Some (JNum 404), err_data = Some (JObj [(''action'', action)]),
      err_ctx = None\<rparr>"

text \<open>
  A body parser is called with the request and a callback; it may set the request's body
  and calls back with an error (carrying \<^verbatim>\<open>body\<close> and \<^verbatim>\<open>message\<close>) or with none.
\<close>

record parse_error =
  perr_body :: jsval
  perr_message :: jsval

type_synonym parser = "request \<Rightarrow> parse_error option \<times> request"

text \<open>What the action runtime answers for an action name: the action's definition.\<close>

record endpoint =
  ep_name :: string
  ep_params :: jsval
  ep_responseType :: "string option"

text \<open>
  The collaborators of the gateway are parameters of the model: the glob matcher
  (\<^verbatim>\<open>nanomatch.isMatch\<close> on a string, called with its options), the regular expression engine (a
  stateless \<^verbatim>\<open>test\<close>), \<^verbatim>\<open>querystring.parse\<close>, \<^verbatim>\<open>Buffer.from\<close> (\<open>None\<close> where it throws),
  the factories of the \<^verbatim>\<open>body-parser\<close> module by name, the broker (action lookup, the
  optional validator, which throws on a mismatch, context creation, the call of the
  authorization action and of the resolved action), and the error classes of
  \<^verbatim>\<open>./errors\<close> and of the runtime that are not among the sources.
\<close>

record env =
  nanomatch_isMatch :: "string \<Rightarrow> string \<Rightarrow> js_object \<Rightarrow> bool"
  regexp_test :: "regexp \<Rightarrow> string \<Rightarrow> bool"
  querystring_parse :: "string \<Rightarrow> js_object"
  Buffer_from :: "jsval \<Rightarrow> nat list option"
  bodyParser :: "string \<Rightarrow> (jsval \<Rightarrow> parser) option"
  broker_getAction :: "jsval \<Rightarrow> endpoint option"
  broker_validator :: "(params \<Rightarrow> jsval \<Rightarrow> js_error option) option"
  broker_createNewContext :: "params \<Rightarrow> js_context"
  call_resolveUser :: "js_context \<Rightarrow> jsval \<Rightarrow> js_error + jsval"
  call_endpoint :: "js_context \<Rightarrow> endpoint \<Rightarrow> params \<Rightarrow> js_error + jsval"
  InvalidRequestBodyError :: "jsval \<Rightarrow> jsval \<Rightarrow> js_error"
  InvalidResponseType :: "string \<Rightarrow> js_error"
  CustomError :: "string \<Rightarrow> int \<Rightarrow> js_error"

subsection \<open>Routes\<close>

text \<open>
  The options of a route as configured, and the route \<^verbatim>\<open>createRoute\<close> makes of them.
  \<open>None\<close> stands for an option that is not set. The whitelist is kept as the
  configured value; the aliases are a table from keys to action names.
\<close>

record route_opts =
  opt_path :: "string option"
  opt_authorization :: jsval
  opt_whitelist :: jsval
  opt_aliases :: "(string \<times> string) list option"
  opt_bodyParsers :: "js_object option"

record route =
  authorization :: jsval
  whitelist :: jsval
  hasWhitelist :: bool
  aliases :: "(string \<times> string) list option"
  hasAliases :: bool
  parsers :: "parser list option"
  path :: string

record settings =
  settings_path :: "string option"
  settings_routes :: "route_opts list option"
  settings_assets :: bool

text \<open>
  The loop over \<^verbatim>\<open>Object.keys(bps)\<close>: every parser whose option is not \<^verbatim>\<open>false\<close> is
  made by the factory of its name, with the option as argument when it is an object. A
  name the module does not have throws.
\<close>

fun make_parsers :: "env \<Rightarrow> js_object \<Rightarrow> js_error + parser list" where
  "make_parsers env [] = Inr []"
| "make_parsers env ((key, v) # bps) =
     (if v = JBool False then make_parsers env bps
      else case bodyParser env key of
        None \<Rightarrow> Inl (TypeError ''bodyParser[key] is not a function'')
      | Some factory \<Rightarrow>
          (case make_parsers env bps of
             Inl e \<Rightarrow> Inl e
           | Inr ps \<Rightarrow> Inr (factory (if isObject v then v else JUndefined) # ps)))"

text \<open>\<^verbatim>\<open>s || ""\<close> on an optional string.\<close>

definition or_empty :: "string option \<Rightarrow> string" where
  "or_empty s = (case s of None \<Rightarrow> [] | Some x \<Rightarrow> x)"

definition createRoute :: "env \<Rightarrow> settings \<Rightarrow> route_opts \<Rightarrow> js_error + route" where
  "createRoute env st opts =
     (case (case opt_bodyParsers opts of
              None \<Rightarrow> Inr None
            | Some bps \<Rightarrow> (case make_parsers env bps of Inl e \<Rightarrow> Inl e | Inr ps \<Rightarrow> Inr (Some ps))) of
        Inl e \<Rightarrow> Inl e
      | Inr ps \<Rightarrow>
          (let p = or_empty (settings_path st) @ or_empty (opt_path opts)
           in Inr \<lparr>authorization = opt_authorization opts,
                   whitelist = opt_whitelist opts,
                   hasWhitelist = Array_isArray (opt_whitelist opts),
                   aliases = opt_aliases opts,
                   hasAliases = (case opt_aliases opts of None \<Rightarrow> False | Some al \<Rightarrow> length al > 0),
                   parsers = ps,
                   path = (if p = [] then ''/'' else p)\<rparr>))"

subsection \<open>Aliases and the whitelist\<close>

text \<open>
  \<^verbatim>\<open>route.aliases[key]\<close>: the alias table is the object literal of the configuration, so
  the lookup gives the table's own value under the key and, where it has none, what the
  object inherits under that key.
\<close>

definition alias_get :: "(string \<times> string) list \<Rightarrow> string \<Rightarrow> jsval" where
  "alias_get al k = (case map_of al k of Some v \<Rightarrow> JStr v | None \<Rightarrow> obj_get Object_prototype k)"

text \<open>
  \<^verbatim>\<open>resolveAlias\<close>. The action name is the string read off the URL; as a key and in the
  concatenation with the method it stands with its text.
\<close>

definition resolveAlias :: "route \<Rightarrow> jsval \<Rightarrow> string option \<Rightarrow> js_error + jsval" where
  "resolveAlias route actionName method =
     (case aliases route of
        None \<Rightarrow> Inl (TypeError ''Cannot read property of undefined'')
      | Some al \<Rightarrow>
          (let match = (case method of None \<Rightarrow> ''GET'' | Some m \<Rightarrow> m) @ '' '' @ ToString actionName;
               res = js_or (alias_get al match) (alias_get al (ToString actionName))
           in Inr (if truthy res then res else actionName)))"

text \<open>
  The callback of \<^verbatim>\<open>find\<close> in \<^verbatim>\<open>checkWhitelist\<close>, read for its truthiness. The action
  is a string unless alias resolution returned something else; the glob matcher throws
  a \<^verbatim>\<open>TypeError\<close> on anything but a string, and \<^verbatim>\<open>test\<close> converts its argument to one.
\<close>

fun mask_test :: "env \<Rightarrow> jsval \<Rightarrow> jsval \<Rightarrow> js_error + bool" where
  "mask_test env action (JStr pattern) =
     (case action of
        JStr a \<Rightarrow> Inr (nanomatch_isMatch env a pattern [(''unixify'', JBool False)])
      | _ \<Rightarrow> Inl (TypeError ''expected a string''))"
| "mask_test env action (JRegExp r) = Inr (regexp_test env r (ToString action))"
| "mask_test env action _ = Inr False"

text \<open>\<^verbatim>\<open>masks.find(callback)\<close>: the first mask the callback accepts, else \<^verbatim>\<open>undefined\<close>.\<close>

fun find_mask :: "env \<Rightarrow> jsval \<Rightarrow> jsval list \<Rightarrow> js_error + jsval" where
  "find_mask env action [] = Inr JUndefined"
| "find_mask env action (m # ms) =
     (case mask_test env action m of
        Inl e \<Rightarrow> Inl e
      | Inr accepted \<Rightarrow> if accepted then Inr m else find_mask env action ms)"

definition checkWhitelist :: "env \<Rightarrow> route \<Rightarrow> jsval \<Rightarrow> js_error + bool" where
  "checkWhitelist env route action =
     (case whitelist route of
        JArr masks \<Rightarrow>
          (case find_mask env action masks of
             Inl e \<Rightarrow> Inl e
           | Inr found \<Rightarrow> Inr (\<not> is_nullish found))
      | _ \<Rightarrow> Inl (TypeError ''route.whitelist.find is not a function''))"

section \<open>The request pipeline: \<^verbatim>\<open>callAction\<close>\<close>

text \<open>
  \<^verbatim>\<open>callAction\<close> is a chain of promise stages closed by one \<^verbatim>\<open>catch\<close>. The variables the
  stages share (the action name, the parameters, the endpoint, the context) and the
  request and response they work on form the state; two more fields record what ran: the
  positions of the body parsers that were called, in the order of the calls, and the
  calls of the resolved action, each with the parameters it was given. A stage ends in
  the state it leaves (\<open>Inr\<close>) or in the error it rejects with (\<open>Inl\<close>, beside the state
  at that moment); a rejection skips the stages after it.
\<close>

record pstate =
  st_req :: request
  st_res :: response
  st_actionName :: jsval
  st_params :: params
  st_endpoint :: "endpoint option"
  st_ctx :: "js_context option"
  st_parsers_run :: "nat list"
  st_invoked :: "(endpoint \<times> params) list"

type_synonym stage_result = "(js_error \<times> pstate) + pstate"

definition and_then :: "stage_result \<Rightarrow> (pstate \<Rightarrow> stage_result) \<Rightarrow> stage_result" where
  "and_then r f = (case r of Inl e \<Rightarrow> Inl e | Inr st \<Rightarrow> f st)"

definition alias_stage :: "route \<Rightarrow> pstate \<Rightarrow> stage_result" where
  "alias_stage route st =
     (if hasAliases route then
        (case resolveAlias route (st_actionName st) (Some (req_method (st_req st))) of
           Inl e \<Rightarrow> Inl (e, st)
         | Inr newActionName \<Rightarrow>
             Inr (if newActionName \<noteq> st_actionName st
                  then st\<lparr>st_actionName := newActionName\<rparr> else st))
      else Inr st)"

text \<open>The message \<^verbatim>\<open>`Action '${actionName}' is not available!`\<close>.\<close>

definition not_available :: "jsval \<Rightarrow> string" where
  "not_available actionName =
     ''Action '' @ [CHR 0x27] @ ToString actionName @ [CHR 0x27] @ '' is not available!''"

definition whitelist_stage :: "env \<Rightarrow> route \<Rightarrow> pstate \<Rightarrow> stage_result" where
  "whitelist_stage env route st =
     (if hasWhitelist route then
        (case checkWhitelist env route (st_actionName st) of
           Inl e \<Rightarrow> Inl (e, st)
         | Inr allowed \<Rightarrow>
             if \<not> allowed
             then Inl (ServiceNotFoundError (not_available (st_actionName st)) (st_actionName st), st)
             else Inr st)
      else Inr st)"

text \<open>
  \<^verbatim>\<open>Promise.mapSeries(route.parsers, ...)\<close>: the parsers are called one after the other,
  each when the one before it has called back; the first error rejects the series.
\<close>

fun mapSeries :: "env \<Rightarrow> parser list \<Rightarrow> nat \<Rightarrow> pstate \<Rightarrow> stage_result" where
  "mapSeries env [] i st = Inr st"
| "mapSeries env (p # ps) i st =
     (case p (st_req st) of
        (Some err, req') \<Rightarrow>
          Inl (InvalidRequestBodyError env (perr_body err) (perr_message err),
               st\<lparr>st_req := req', st_parsers_run := st_parsers_run st @ [i]\<rparr>)
      | (None, req') \<Rightarrow>
          mapSeries env ps (Suc i)
            (st\<lparr>st_req := req', st_parsers_run := st_parsers_run st @ [i]\<rparr>))"

definition parse_stage :: "env \<Rightarrow> route \<Rightarrow> pstate \<Rightarrow> stage_result" where
  "parse_stage env route st =
     (case parsers route of
        Some ps \<Rightarrow>
          if req_method (st_req st) \<in> set [''POST'', ''PUT'', ''PATCH''] \<and> length ps > 0
          then mapSeries env ps 0 st
          else Inr st
      | None \<Rightarrow> Inr st)"

definition merge_params :: "js_object option \<Rightarrow> jsval \<Rightarrow> params" where
  "merge_params query body =
     (let params = Object_assign empty_object (case query of None \<Rightarrow> [] | Some q \<Rightarrow> q)
      in if isObject body then Object_assign params (own_enumerable body) else params)"

definition merge_stage :: "js_object option \<Rightarrow> pstate \<Rightarrow> stage_result" where
  "merge_stage query st = Inr (st\<lparr>st_params := merge_params query (req_body (st_req st))\<rparr>)"

definition resolve_stage :: "env \<Rightarrow> pstate \<Rightarrow> stage_result" where
  "resolve_stage env st =
     (case broker_getAction env (st_actionName st) of
        Some ep \<Rightarrow>
          (let st' = st\<lparr>st_endpoint := Some ep\<rparr>
           in case broker_validator env of
                Some validate \<Rightarrow>
                  if truthy (ep_params ep)
                  then (case validate (st_params st) (ep_params ep) of
                          Some e \<Rightarrow> Inl (e, st')
                        | None \<Rightarrow> Inr st')
                  else Inr st'
              | None \<Rightarrow> Inr st')
      | None \<Rightarrow>
          Inl (ServiceNotFoundError (not_available (st_actionName st)) (st_actionName st), st))"

definition context_stage :: "env \<Rightarrow> pstate \<Rightarrow> stage_result" where
  "context_stage env st =
     (let ctx = broker_createNewContext env (st_params st)
      in Inr (st\<lparr>st_ctx := Some (ctx\<lparr>ctx_requestID := ctx_id ctx\<rparr>)\<rparr>))"

definition apiKey :: "js_object option \<Rightarrow> request \<Rightarrow> jsval" where
  "apiKey query req =
     js_or (case query of None \<Rightarrow> JUndefined | Some q \<Rightarrow> obj_get q ''apikey'')
           (obj_get (req_headers req) ''apikey'')"

definition authorize_stage :: "env \<Rightarrow> route \<Rightarrow> js_object option \<Rightarrow> pstate \<Rightarrow> stage_result" where
  "authorize_stage env route query st =
     (case st_ctx st of
        None \<Rightarrow> Inl (TypeError ''Cannot read property of undefined'', st)
      | Some ctx \<Rightarrow>
          if truthy (authorization route) then
            (case call_resolveUser env ctx (apiKey query (st_req st)) of
               Inl e \<Rightarrow> Inl (e, st)
             | Inr user \<Rightarrow>
                 if truthy user then Inr (st\<lparr>st_ctx := Some (ctx\<lparr>ctx_user := user\<rparr>)\<rparr>)
                 else Inl (CustomError env ''Forbidden'' 403, st))
          else Inr st)"

subsection \<open>The response encoder\<close>

text \<open>\<^verbatim>\<open>responseType || d\<close> and \<^verbatim>\<open>!responseType\<close> on the action's optional response type.\<close>

definition declared :: "string option \<Rightarrow> bool" where
  "declared responseType = (case responseType of None \<Rightarrow> False | Some t \<Rightarrow> t \<noteq> [])"

definition or_default :: "string option \<Rightarrow> string \<Rightarrow> string" where
  "or_default responseType d = (case responseType of None \<Rightarrow> d | Some t \<Rightarrow> if t \<noteq> [] then t else d)"

fun buffer_bytes :: "jsval \<Rightarrow> nat list" where
  "buffer_bytes (JBuffer bs) = bs"
| "buffer_bytes _ = []"

fun stream_of :: "jsval \<Rightarrow> nat" where
  "stream_of (JStream s) = s"
| "stream_of _ = 0"

fun text_of :: "jsval \<Rightarrow> string" where
  "text_of (JStr s) = s"
| "text_of _ = []"

text \<open>
  The \<^verbatim>\<open>try\<close> block of the success handler: the chain of tests on the result, in the
  order of the source. \<open>None\<close> is an exception thrown inside the block; in the model
  only \<^verbatim>\<open>Buffer.from\<close> throws, before the branch has written anything.
\<close>

definition encode_body :: "env \<Rightarrow> string option \<Rightarrow> jsval \<Rightarrow> response \<Rightarrow> response option" where
  "encode_body env responseType data res =
     (if is_nullish data then
        Some (end_with NoBody res)
      else if Buffer_isBuffer data then
        Some (end_with (Bytes (buffer_bytes data))
               (setHeader ''Content-Length'' (JNum (int (length (buffer_bytes data))))
                 (setHeader ''Content-Type''
                    (JStr (or_default responseType ''application/octet-stream'')) res)))
      else if isObject data \<and> loosely_Buffer (get_type data) then
        (case Buffer_from env data of
           None \<Rightarrow> None
         | Some buf \<Rightarrow>
             Some (end_with (Bytes buf)
                    (setHeader ''Content-Type''
                       (JStr (or_default responseType ''application/octet-stream'')) res)))
      else if isStream data then
        Some ((setHeader ''Content-Type''
                 (JStr (or_default responseType ''application/octet-stream'')) res)
              \<lparr>res_body := Piped (stream_of data)\<rparr>)
      else if isObject data \<or> Array_isArray data then
        Some (end_with (Json data None)
               (setHeader ''Content-Type'' (JStr (or_default responseType ''application/json'')) res))
      else if isString data then
        (if \<not> declared responseType then
           Some (end_with (Json data None)
                  (setHeader ''Content-Type'' (JStr ''application/json'') res))
         else
           Some (end_with (Text (text_of data))
                  (setHeader ''Content-Type'' (JStr (or_default responseType [])) res)))
      else
        Some (end_with (Json data None)
               (setHeader ''Content-Type'' (JStr (or_default responseType ''application/json'')) res)))"

text \<open>The success handler of the call: status, request id, then the encoding.\<close>

definition respond ::
  "env \<Rightarrow> js_context \<Rightarrow> endpoint \<Rightarrow> jsval \<Rightarrow> response \<Rightarrow> (js_error \<times> response) + response" where
  "respond env ctx ep data res =
     (let res1 = res\<lparr>res_statusCode := 200\<rparr>;
          responseType = ep_responseType ep;
          res2 = (if ctx_requestID ctx \<noteq> []
                  then setHeader ''Request-Id'' (JStr (ctx_requestID ctx)) res1 else res1)
      in case encode_body env responseType data res2 of
           None \<Rightarrow> Inl (InvalidResponseType env (typeof data), res2)
         | Some res3 \<Rightarrow> Inr res3)"

definition invoke_stage :: "env \<Rightarrow> pstate \<Rightarrow> stage_result" where
  "invoke_stage env st =
     (case (st_ctx st, st_endpoint st) of
        (Some ctx, Some ep) \<Rightarrow>
          (let st' = st\<lparr>st_invoked := st_invoked st @ [(ep, st_params st)]\<rparr>
           in case call_endpoint env ctx ep (st_params st) of
                Inl e \<Rightarrow> Inl (e, st')
              | Inr data \<Rightarrow>
                  (case respond env ctx ep data (st_res st') of
                     Inl (e, res) \<Rightarrow> Inl (e, st'\<lparr>st_res := res\<rparr>)
                   | Inr res \<Rightarrow> Inr (st'\<lparr>st_res := res\<rparr>)))
      | _ \<Rightarrow> Inl (TypeError ''Cannot read property of undefined'', st))"






subsection \<open>The error handler\<close>

text \<open>\<^verbatim>\<open>_.pick(err, ["name", "message", "code", "data"])\<close>: the properties the error has.\<close>

definition picked :: "string \<Rightarrow> jsval option \<Rightarrow> js_object" where
  "picked k v = (case v of None \<Rightarrow> [] | Some x \<Rightarrow> [(k, x)])"

definition pick_error :: "js_error \<Rightarrow> js_object" where
  "pick_error err =
     picked ''name'' (err_name err) @ picked ''message'' (err_message err) @
     picked ''code'' (err_code err) @ picked ''data'' (err_data err)"

definition error_headers :: "js_error \<Rightarrow> js_object" where
  "error_headers err =
     (''Content-type'', JStr ''application/json'') #
     (case err_ctx err of None \<Rightarrow> [] | Some ctx \<Rightarrow> [(''Request-Id'', JStr (ctx_id ctx))])"

text \<open>\<^verbatim>\<open>_.isNumber(err.code) ? err.code : 500\<close>.\<close>

definition error_code :: "js_error \<Rightarrow> int" where
  "error_code err = (case err_code err of Some (JNum n) \<Rightarrow> n | _ \<Rightarrow> 500)"

text \<open>
  The handler of the \<^verbatim>\<open>catch\<close>. When \<^verbatim>\<open>writeHead\<close> throws, the exception leaves the
  handler: the body is never written and the response stays as it was.
\<close>

definition error_handler :: "js_error \<Rightarrow> response \<Rightarrow> response" where
  "error_handler err res =
     (case writeHead (error_code err) (error_headers err) res of
        None \<Rightarrow> res
      | Some res' \<Rightarrow> end_with (Json (JObj (pick_error err)) (Some 2)) res')"

subsection \<open>The chain\<close>

definition initial :: "string \<Rightarrow> request \<Rightarrow> response \<Rightarrow> pstate" where
  "initial actionName req res =
     \<lparr>st_req = req, st_res = res, st_actionName = JStr actionName, st_params = empty_object,
      st_endpoint = None, st_ctx = None, st_parsers_run = [], st_invoked = []\<rparr>"

definition pipeline :: "env \<Rightarrow> route \<Rightarrow> js_object option \<Rightarrow> pstate \<Rightarrow> stage_result" where
  "pipeline env route query st =
     and_then (and_then (and_then (and_then (and_then (and_then (and_then
       (alias_stage route st)
       (whitelist_stage env route))
       (parse_stage env route))
       (merge_stage query))
       (resolve_stage env))
       (context_stage env))
       (authorize_stage env route query))
       (invoke_stage env)"

definition callAction ::
  "env \<Rightarrow> route \<Rightarrow> string \<Rightarrow> request \<Rightarrow> response \<Rightarrow> js_object option \<Rightarrow> pstate" where
  "callAction env route actionName req res query =
     (case pipeline env route query (initial actionName req res) of
        Inl (err, st) \<Rightarrow> st\<lparr>st_res := error_handler err (st_res st)\<rparr>
      | Inr st \<Rightarrow> st)"

section \<open>The dispatch entry: \<^verbatim>\<open>httpHandler\<close>\<close>

record gateway =
  gw_routes :: "route list option"
  gw_serve :: bool

fun create_routes :: "env \<Rightarrow> settings \<Rightarrow> route_opts list \<Rightarrow> js_error + route list" where
  "create_routes env st [] = Inr []"
| "create_routes env st (opts # rest) =
     (case createRoute env st opts of
        Inl e \<Rightarrow> Inl e
      | Inr r \<Rightarrow> (case create_routes env st rest of Inl e \<Rightarrow> Inl e | Inr rs \<Rightarrow> Inr (r # rs)))"

definition created :: "env \<Rightarrow> settings \<Rightarrow> js_error + gateway" where
  "created env st =
     (case settings_routes st of
        None \<Rightarrow> Inr \<lparr>gw_routes = None, gw_serve = settings_assets st\<rparr>
      | Some ropts \<Rightarrow>
          (case create_routes env st ropts of
             Inl e \<Rightarrow> Inl e
           | Inr rs \<Rightarrow> Inr \<lparr>gw_routes = Some rs, gw_serve = settings_assets st\<rparr>))"

definition send404 :: "response \<Rightarrow> response" where
  "send404 res =
     (case writeHead 404 [] res of
        None \<Rightarrow> res
      | Some res' \<Rightarrow> end_with (Text ''Not found'') res')"

text \<open>The URL without its query string, and the query string parsed (when there is one).\<close>

definition split_url :: "env \<Rightarrow> string \<Rightarrow> string \<times> js_object option" where
  "split_url env u =
     (case indexOf u CHR ''?'' 1 of
        None \<Rightarrow> (u, None)
      | Some questionIdx \<Rightarrow>
          (take questionIdx u, Some (querystring_parse env (drop (questionIdx + 1) u))))"

definition trim_slash :: "string \<Rightarrow> string" where
  "trim_slash url = (if endsWith url CHR ''/'' then butlast url else url)"

text \<open>The action name of a URL under a route's path.\<close>

definition action_name :: "string \<Rightarrow> string \<Rightarrow> string" where
  "action_name url rpath =
     (let a = drop (length rpath) url;
          a' = (if startsWith a ''/'' then drop 1 a else a)
      in replace_all CHR ''/'' CHR ''.'' (replace_first CHR ''~'' CHR ''$'' a'))"

text \<open>The loop over the routes: the first route whose path the URL starts with is called.\<close>

fun route_loop ::
  "env \<Rightarrow> route list \<Rightarrow> string \<Rightarrow> request \<Rightarrow> response \<Rightarrow> js_object option \<Rightarrow> pstate option" where
  "route_loop env [] url req res query = None"
| "route_loop env (route # rest) url req res query =
     (if startsWith url (path route)
      then Some (callAction env route (action_name url (path route)) req res query)
      else route_loop env rest url req res query)"

text \<open>
  What became of a request: an action was called (the final state of \<^verbatim>\<open>callAction\<close>),
  the request was handed to the static server, or the gateway answered 404 itself.
\<close>

datatype outcome =
    ByAction pstate
  | ByStatic
  | NotFound response

definition httpHandler :: "gateway \<Rightarrow> env \<Rightarrow> request \<Rightarrow> response \<Rightarrow> outcome" where
  "httpHandler gw env req res =
     (let (url0, query) = split_url env (req_url req);
          url = trim_slash url0
      in case (case gw_routes gw of
                 None \<Rightarrow> None
               | Some routes \<Rightarrow> route_loop env routes url req res query) of
           Some st \<Rightarrow> ByAction st
         | None \<Rightarrow> if gw_serve gw then ByStatic else NotFound (send404 res))"

section \<open>An example configuration\<close>

text \<open>
  Concrete collaborators, routes and requests, on which the theorems below are run: a
  matcher that knows the wildcard \<^verbatim>\<open>*\<close>, regular expressions of the form \<^verbatim>\<open>^literal\<close>, a
  query string of \<^verbatim>\<open>key=value\<close> pairs, a JSON parser that knows one payload, a broker with
  two actions.
\<close>

fun star_match :: "string \<Rightarrow> string \<Rightarrow> bool" where
  "star_match [] s = (s = [])"
| "star_match (p # ps) s =
     (if p = CHR ''*'' then list_ex (\<lambda>k. star_match ps (drop k s)) [0..<Suc (length s)]
      else (case s of [] \<Rightarrow> False | c # cs \<Rightarrow> c = p \<and> star_match ps cs))"

fun literal_test :: "regexp \<Rightarrow> string \<Rightarrow> bool" where
  "literal_test (RegExp src fl) s =
     (case src of [] \<Rightarrow> True | c # lit \<Rightarrow> if c = CHR ''^'' then prefix lit s else False)"

fun split_on :: "char \<Rightarrow> string \<Rightarrow> string list" where
  "split_on c [] = [[]]"
| "split_on c (x # xs) =
     (case split_on c xs of
        [] \<Rightarrow> [[x]]
      | w # ws \<Rightarrow> if x = c then [] # w # ws else (x # w) # ws)"

definition pairs_of :: "string \<Rightarrow> js_object" where
  "pairs_of q =
     map (\<lambda>kv. (takeWhile (\<lambda>x. x \<noteq> CHR ''='') kv,
                JStr (drop 1 (dropWhile (\<lambda>x. x \<noteq> CHR ''='') kv))))
       (split_on CHR ''&'' q)"

fun byte_of :: "jsval \<Rightarrow> nat" where
  "byte_of (JNum n) = nat (n mod 256)"
| "byte_of _ = 0"

fun from_envelope :: "jsval \<Rightarrow> nat list option" where
  "from_envelope (JBuffer bs) = Some bs"
| "from_envelope (JObj ps) =
     (case obj_get ps ''data'' of JArr xs \<Rightarrow> Some (map byte_of xs) | _ \<Rightarrow> None)"
| "from_envelope _ = None"

definition json_parser :: parser where
  "json_parser req =
     (if req_payload req = ''{name:a}''
      then (None, req\<lparr>req_body := JObj [(''name'', JStr ''a'')]\<rparr>)
      else (Some \<lparr>perr_body = JStr (req_payload req), perr_message = JStr ''Unexpected token''\<rparr>,
            req))"

definition urlencoded_parser :: parser where
  "urlencoded_parser req = (None, req)"

definition action_named :: "string \<Rightarrow> string option \<Rightarrow> endpoint" where
  "action_named n rt = \<lparr>ep_name = n, ep_params = JUndefined, ep_responseType = rt\<rparr>"


definition env0 :: env where
  "env0 =
     \<lparr>nanomatch_isMatch = (\<lambda>action pattern opts. star_match pattern action),
      regexp_test = literal_test,
      querystring_parse = pairs_of,
      Buffer_from = from_envelope,
      bodyParser = (\<lambda>key. if key = ''json'' then Some (\<lambda>opts. json_parser)
                           else if key = ''urlencoded'' then Some (\<lambda>opts. urlencoded_parser)
                           else None),
      broker_getAction = (\<lambda>n. if n = JStr ''users.create'' then Some (action_named ''users.create'' None)
                                else if n = JStr ''file.get'' then Some (action_named ''file.get'' (Some ''image/png''))
                                else None),
      broker_validator = None,
      broker_createNewContext = (\<lambda>params. \<lparr>ctx_id = ''r1'', ctx_requestID = [], ctx_user = JUndefined\<rparr>),
      call_resolveUser = (\<lambda>ctx key. Inr (if key = JStr ''secret'' then JStr ''admin'' else JNull)),
      call_endpoint = (\<lambda>ctx ep params.
         if ep_name ep = ''file.get'' then Inr (JObj [(''type'', JStr ''Buffer'')])
         else Inr (JObj (p_props params))),
      InvalidRequestBodyError = (\<lambda>body message.
         \<lparr>err_name = Some (JStr ''InvalidRequestBodyError''), err_message = Some message,
          err_code = Some (JNum 400), err_data = Some body, err_ctx = None\<rparr>),
      InvalidResponseType = (\<lambda>t.
         \<lparr>err_name = Some (JStr ''InvalidResponseType''), err_message = Some (JStr t),
          err_code = Some (JNum 500), err_data = None, err_ctx = None\<rparr>),
      CustomError = (\<lambda>message code.
         \<lparr>err_name = Some (JStr ''CustomError''), err_message = Some (JStr message),
          err_code = Some (JNum code), err_data = None, err_ctx = None\<rparr>)\<rparr>"

definition settings0 :: settings where
  "settings0 = \<lparr>settings_path = None, settings_routes = None, settings_assets = False\<rparr>"

definition admin_opts :: route_opts where
  "admin_opts =
     \<lparr>opt_path = Some ''/admin'',
      opt_authorization = JUndefined,
      opt_whitelist = JArr [JStr ''users.*'', JNum 7, JRegExp (RegExp ''^math'' [])],
      opt_aliases = Some [(''POST users'', ''users.create''), (''health'', ''$node.health'')],
      opt_bodyParsers = Some [(''json'', JBool True), (''urlencoded'', JBool False)]\<rparr>"

definition admin_route :: route where
  "admin_route =
     \<lparr>authorization = JUndefined,
      whitelist = JArr [JStr ''users.*'', JNum 7, JRegExp (RegExp ''^math'' [])],
      hasWhitelist = True,
      aliases = Some [(''POST users'', ''users.create''), (''health'', ''$node.health'')],
      hasAliases = True,
      parsers = Some [json_parser],
      path = ''/admin''\<rparr>"

definition root_route :: route where
  "root_route =
     \<lparr>authorization = JUndefined, whitelist = JUndefined, hasWhitelist = False,
      aliases = None, hasAliases = False, parsers = Some [json_parser, urlencoded_parser],
      path = ''/''\<rparr>"

definition request0 :: "string \<Rightarrow> string \<Rightarrow> string \<Rightarrow> request" where
  "request0 m u payload =
     \<lparr>req_method = m, req_url = u, req_headers = [], req_payload = payload,
      req_body = JUndefined\<rparr>"

definition response0 :: response where
  "response0 =
     \<lparr>res_statusCode = 200, res_headers = [], res_head = None, res_body = NoBody,
      res_ended = False\<rparr>"

definition gateway0 :: gateway where
  "gateway0 = \<lparr>gw_routes = Some [admin_route, root_route], gw_serve = False\<rparr>"

section \<open>Notions used in the statements\<close>

text \<open>
  The entry of an alias table under a key that counts for \<^verbatim>\<open>resolveAlias\<close>: the value
  stored under exactly that key, unless it is the empty string.
\<close>

definition alias_entry :: "(string \<times> string) list \<Rightarrow> string \<Rightarrow> string option" where
  "alias_entry al k = (case map_of al k of None \<Rightarrow> None | Some v \<Rightarrow> if v = [] then None else Some v)"


text \<open>
  A list of body parsers run on a request with no failure: each parser gets the request as
  the one before it left it. \<open>None\<close> when one of them fails.
\<close>

fun run_ok :: "parser list \<Rightarrow> request \<Rightarrow> request option" where
  "run_ok [] req = Some req"
| "run_ok (p # ps) req = (case p req of (None, req') \<Rightarrow> run_ok ps req' | (Some e, req') \<Rightarrow> None)"

text \<open>The methods for which the body is parsed.\<close>

definition body_methods :: "string set" where
  "body_methods = {''POST'', ''PUT'', ''PATCH''}"









section \<open>Lemmas on strings\<close>

lemma replace_first_length: "length (replace_first a b s) = length s"
  by (induction s) auto

lemma replace_first_nth:
  "i < length s \<Longrightarrow>
   replace_first a b s ! i = (if s ! i = a \<and> (\<forall>j<i. s ! j \<noteq> a) then b else s ! i)"
proof (induction s arbitrary: i)
  case Nil
  then show ?case by simp
next
  case (Cons x xs)
  show ?case
  proof (cases i)
    case 0
    then show ?thesis by simp
  next
    case (Suc k)
    with Cons.prems have k: "k < length xs" by simp
    show ?thesis
    proof (cases "x = a")
      case True
      then show ?thesis using Suc by auto
    next
      case False
      have "(\<forall>j<Suc k. (x # xs) ! j \<noteq> a) = (\<forall>j<k. xs ! j \<noteq> a)"
        using False by (auto simp: less_Suc_eq_0_disj)
      then show ?thesis using Suc False Cons.IH[OF k] by auto
    qed
  qed
qed

lemma action_name_remainder:
  assumes "url = rpath @ rest"
    and "rest = CHR ''/'' # rem \<or> (rest = rem \<and> \<not> prefix ''/'' rem)"
  shows "action_name url rpath = replace_all CHR ''/'' CHR ''.'' (replace_first CHR ''~'' CHR ''$'' rem)"
  using assms by (auto simp: action_name_def Let_def startsWith_def)

section \<open>Lemmas on routes and the whitelist\<close>

lemma createRoute_path:
  "createRoute env st opts = Inr r \<Longrightarrow>
   path r = (if or_empty (settings_path st) @ or_empty (opt_path opts) = [] then ''/''
             else or_empty (settings_path st) @ or_empty (opt_path opts))"
  by (auto simp: createRoute_def Let_def split: option.splits sum.splits)

lemma find_mask_string:
  "\<exists>found. find_mask env (JStr a) masks = Inr found \<and>
     (\<not> is_nullish found) =
       ((\<exists>p. JStr p \<in> set masks \<and> nanomatch_isMatch env a p [(''unixify'', JBool False)]) \<or>
        (\<exists>r. JRegExp r \<in> set masks \<and> regexp_test env r a))"
proof (induction masks)
  case Nil
  then show ?case by simp
next
  case (Cons m masks)
  then obtain found where f: "find_mask env (JStr a) masks = Inr found"
    and iff: "(\<not> is_nullish found) =
       ((\<exists>p. JStr p \<in> set masks \<and> nanomatch_isMatch env a p [(''unixify'', JBool False)]) \<or>
        (\<exists>r. JRegExp r \<in> set masks \<and> regexp_test env r a))"
    by blast
  show ?case
  proof (cases m)
    case (JStr p)
    then show ?thesis using f iff by auto
  next
    case (JRegExp r)
    then show ?thesis using f iff by auto
  qed (use f iff in auto)
qed

lemma checkWhitelist_array:
  "whitelist route = JArr masks \<Longrightarrow>
   checkWhitelist env route (JStr a) =
     Inr ((\<exists>p. JStr p \<in> set masks \<and> nanomatch_isMatch env a p [(''unixify'', JBool False)]) \<or>
          (\<exists>r. JRegExp r \<in> set masks \<and> regexp_test env r a))"
  using find_mask_string[of env a masks] by (auto simp: checkWhitelist_def)

lemma create_routes_nth:
  "create_routes env st ropts = Inr rs \<Longrightarrow>
   length rs = length ropts \<and> (\<forall>i<length ropts. createRoute env st (ropts ! i) = Inr (rs ! i))"
proof (induction ropts arbitrary: rs)
  case Nil
  then show ?case by simp
next
  case (Cons opts rest)
  from Cons.prems obtain r rs' where r: "createRoute env st opts = Inr r"
    and rs': "create_routes env st rest = Inr rs'" and rs: "rs = r # rs'"
    by (auto split: sum.splits)
  from Cons.IH[OF rs'] show ?case using r rs
    by (auto simp: nth_Cons split: nat.splits)
qed

lemma created_routes:
  assumes "created env st = Inr gw" and "settings_routes st = Some ropts"
  shows "\<exists>rs. gw_routes gw = Some rs \<and> length rs = length ropts \<and>
              (\<forall>i<length ropts. createRoute env st (ropts ! i) = Inr (rs ! i))"
  using assms create_routes_nth[of env st ropts]
  by (auto simp: created_def split: sum.splits)

section \<open>Lemmas on the alias table\<close>


lemma inherited_truthy:
  "map_of Object_prototype k = Some v \<Longrightarrow> truthy v"
  by (auto simp: Object_prototype_def native_def split: if_splits)


lemma truthy_alias_get:
  "truthy (alias_get al k) =
     (alias_entry al k \<noteq> None \<or> (map_of al k = None \<and> map_of Object_prototype k \<noteq> None))"
  by (auto simp: alias_get_def alias_entry_def obj_get_def
           split: option.splits dest: inherited_truthy)


section \<open>Lemmas on the dispatch entry\<close>

lemma route_loop_first:
  "i < length rs \<Longrightarrow> prefix (path (rs ! i)) url \<Longrightarrow> \<forall>j<i. \<not> prefix (path (rs ! j)) url \<Longrightarrow>
   route_loop env rs url req res q =
     Some (callAction env (rs ! i) (action_name url (path (rs ! i))) req res q)"
proof (induction rs arbitrary: i)
  case Nil
  then show ?case by simp
next
  case (Cons r rs)
  show ?case
  proof (cases i)
    case 0
    then show ?thesis using Cons.prems by (simp add: startsWith_def)
  next
    case (Suc k)
    have "\<not> prefix (path r) url" using Cons.prems(3) Suc by auto
    moreover have "\<forall>j<k. \<not> prefix (path (rs ! j)) url"
      using Cons.prems(3) Suc by auto
    ultimately show ?thesis
      using Cons.IH[of k] Cons.prems(1,2) Suc by (simp add: startsWith_def)
  qed
qed

lemma route_loop_none:
  "\<forall>r \<in> set rs. \<not> prefix (path r) url \<Longrightarrow> route_loop env rs url req res q = None"
  by (induction rs) (auto simp: startsWith_def)

lemma indexOf_Some:
  assumes "indexOf u c k = Some i"
  shows "k \<le> i \<and> i < length u \<and> u ! i = c \<and> c \<notin> set (take (i - k) (drop k u))"
proof -
  let ?rest = "drop k u"
  let ?n = "length (takeWhile (\<lambda>x. x \<noteq> c) ?rest)"
  from assms have n: "?n < length ?rest" and i: "i = k + ?n"
    by (auto simp: indexOf_def Let_def split: if_splits)
  have "?rest ! ?n = c" using nth_length_takeWhile[OF n] by simp
  moreover have "take ?n ?rest = takeWhile (\<lambda>x. x \<noteq> c) ?rest"
    using takeWhile_eq_take[of "\<lambda>x. x \<noteq> c" "?rest"] by simp
  ultimately show ?thesis using n i
    by (auto simp: dest: set_takeWhileD)
qed

lemma split_url_shape:
  assumes "split_url env u = (url0, query)"
  shows "(u = url0 \<and> query = None) \<or>
         (\<exists>q. u = url0 @ CHR ''?'' # q \<and> query = Some (querystring_parse env q) \<and> CHR ''?'' \<notin> set (drop 1 url0))"
proof (cases "indexOf u CHR ''?'' 1")
  case None
  then show ?thesis using assms by (simp add: split_url_def)
next
  case (Some i)
  from indexOf_Some[OF Some] have i: "i < length u" "u ! i = CHR ''?''" "1 \<le> i"
    and nin: "CHR ''?'' \<notin> set (take (i - 1) (drop 1 u))" by auto
  have "u = take i u @ CHR ''?'' # drop (Suc i) u"
    using id_take_nth_drop[OF i(1)] i(2) by simp
  moreover have "drop 1 (take i u) = take (i - 1) (drop 1 u)"
    by (simp add: drop_take)
  ultimately show ?thesis using assms Some nin by (auto simp: split_url_def)
qed

lemma trim_slash_shape: "trim_slash u = url \<Longrightarrow> (u = url \<and> \<not> endsWith u CHR ''/'') \<or> u = url @ ''/''"
  by (cases u rule: rev_cases) (auto simp: trim_slash_def endsWith_def split: if_splits)

lemma send404_status: "http_status (send404 res) = 404 \<and> res_ended (send404 res) \<and> res_body (send404 res) = Text ''Not found''"
  by (simp add: send404_def http_status_def writeHead_def to_int32_def end_with_def)

section \<open>Lemmas on the pipeline\<close>

lemma upt_step: "[i] @ [Suc i..<Suc (i + n)] = [i..<Suc (i + n)]"
  by (simp add: upt_conv_Cons)

lemma mapSeries_fail:
  "run_ok pre (st_req st) = Some req1 \<Longrightarrow> p req1 = (Some e, req2) \<Longrightarrow>
   mapSeries env (pre @ p # post) i st =
     Inl (InvalidRequestBodyError env (perr_body e) (perr_message e),
          st\<lparr>st_req := req2, st_parsers_run := st_parsers_run st @ [i..<Suc (i + length pre)]\<rparr>)"
proof (induction pre arbitrary: st i)
  case Nil
  then show ?case by simp
next
  case (Cons a pre)
  from Cons.prems(1) obtain req' where a: "a (st_req st) = (None, req')" and r: "run_ok pre req' = Some req1"
    by (auto split: prod.splits option.splits)
  let ?st = "st\<lparr>st_req := req', st_parsers_run := st_parsers_run st @ [i]\<rparr>"
  have "mapSeries env ((a # pre) @ p # post) i st = mapSeries env (pre @ p # post) (Suc i) ?st"
    using a by simp
  also have "\<dots> = Inl (InvalidRequestBodyError env (perr_body e) (perr_message e),
          ?st\<lparr>st_req := req2, st_parsers_run := st_parsers_run ?st @ [Suc i..<Suc (Suc i + length pre)]\<rparr>)"
    using Cons.IH[of ?st, OF _ Cons.prems(2)] r by simp
  finally show ?case using upt_step[of i "Suc (length pre)"] by simp
qed

lemma mapSeries_ok:
  "run_ok ps (st_req st) = Some req' \<Longrightarrow>
   mapSeries env ps i st =
     Inr (st\<lparr>st_req := req', st_parsers_run := st_parsers_run st @ [i..<i + length ps]\<rparr>)"
proof (induction ps arbitrary: st i)
  case Nil
  then show ?case by simp
next
  case (Cons a ps)
  from Cons.prems(1) obtain r1 where a: "a (st_req st) = (None, r1)" and r: "run_ok ps r1 = Some req'"
    by (auto split: prod.splits option.splits)
  let ?st = "st\<lparr>st_req := r1, st_parsers_run := st_parsers_run st @ [i]\<rparr>"
  have "mapSeries env (a # ps) i st = mapSeries env ps (Suc i) ?st"
    using a by simp
  also have "\<dots> = Inr (?st\<lparr>st_req := req', st_parsers_run := st_parsers_run ?st @ [Suc i..<Suc i + length ps]\<rparr>)"
    using Cons.IH[of ?st] r by simp
  finally show ?case using upt_step[of i "length ps"] by simp
qed

lemma run_ok_dichotomy:
  "(\<exists>req'. run_ok ps req = Some req') \<or>
   (\<exists>pre p post req1 e req2. ps = pre @ p # post \<and> run_ok pre req = Some req1 \<and> p req1 = (Some e, req2))"
proof (induction ps arbitrary: req)
  case Nil
  then show ?case by simp
next
  case (Cons a ps)
  obtain oe r1 where a: "a req = (oe, r1)" by (cases "a req")
  show ?case
  proof (cases oe)
    case (Some e)
    then have "a # ps = [] @ a # ps \<and> run_ok [] req = Some req \<and> a req = (Some e, r1)"
      using a by simp
    then show ?thesis by blast
  next
    case None
    from Cons.IH[of r1] show ?thesis
    proof
      assume "\<exists>req'. run_ok ps r1 = Some req'"
      then show ?thesis using a None by simp
    next
      assume "\<exists>pre p post req1 e req2. ps = pre @ p # post \<and> run_ok pre r1 = Some req1 \<and> p req1 = (Some e, req2)"
      then obtain pre p post req1 e req2 where
        "ps = pre @ p # post" "run_ok pre r1 = Some req1" "p req1 = (Some e, req2)" by blast
      then have "a # ps = (a # pre) @ p # post \<and> run_ok (a # pre) req = Some req1 \<and> p req1 = (Some e, req2)"
        using a None by simp
      then show ?thesis by blast
    qed
  qed
qed

lemma callAction_rejected:
  "pipeline env route query (initial a req res) = Inl (err, st) \<Longrightarrow>
   callAction env route a req res query = st\<lparr>st_res := error_handler err (st_res st)\<rparr>"
  by (simp add: callAction_def)

lemma pipeline_parse_rejected:
  "and_then (alias_stage route st0) (whitelist_stage env route) = Inr st \<Longrightarrow>
   parse_stage env route st = Inl x \<Longrightarrow> pipeline env route query st0 = Inl x"
  by (simp add: pipeline_def and_then_def)

lemma alias_stage_Inr:
  "alias_stage route st0 = Inr st \<Longrightarrow> \<exists>n. st = st0\<lparr>st_actionName := n\<rparr>"
  by (auto simp: alias_stage_def split: if_splits sum.splits
           intro: exI[of _ "st_actionName st0"])

lemma alias_stage_total:
  "hasAliases route \<longrightarrow> aliases route \<noteq> None \<Longrightarrow> \<exists>st. alias_stage route st0 = Inr st"
  by (auto simp: alias_stage_def resolveAlias_def Let_def split: option.splits)

lemma not_available_names: "sublist (ToString a) (not_available a)"
  unfolding not_available_def sublist_def
  by (rule exI[of _ "''Action '' @ [CHR 0x27]"], rule exI[of _ "[CHR 0x27] @ '' is not available!''"]) simp

lemma to_int32_small: "- 2147483648 \<le> n \<Longrightarrow> n < 2147483648 \<Longrightarrow> to_int32 n = n"
  by (simp add: to_int32_def)

lemma error_handler_written:
  assumes "100 \<le> to_int32 (error_code err)" and "to_int32 (error_code err) \<le> 999"
  shows "res_head (error_handler err res) = Some (to_int32 (error_code err), error_headers err)"
    and "res_body (error_handler err res) = Json (JObj (pick_error err)) (Some 2)"
    and "res_ended (error_handler err res)"
    and "http_status (error_handler err res) = to_int32 (error_code err)"
    and "res_headers (error_handler err res) = res_headers res"
  using assms by (simp_all add: error_handler_def writeHead_def end_with_def http_status_def)


section \<open>Lemmas on the parameters\<close>























section \<open>Lemmas on the encoder and the error handler\<close>
















section \<open>The claims\<close>

text \<open>
  C1. The dispatch entry takes the URL up to the first question mark after its first
  character, parses what follows as the query string, and drops one trailing slash. It
  then goes through the routes in their declared order and calls the action pipeline for
  the first route whose path is a prefix of that URL, with the action name read off the
  URL. When the gateway has no routes or no route's path is a prefix, and no static
  server is configured, it answers with status 404.
\<close>

theorem C1_dispatch:
  assumes "split_url env (req_url req) = (url0, query)"
    and "url = trim_slash url0"
  shows "(\<forall>rs i. gw_routes gw = Some rs \<and> i < length rs \<and> prefix (path (rs ! i)) url \<and>
                 (\<forall>j<i. \<not> prefix (path (rs ! j)) url) \<longrightarrow>
            httpHandler gw env req res =
              ByAction (callAction env (rs ! i) (action_name url (path (rs ! i))) req res query)) \<and>
         ((gw_routes gw = None \<or> (\<exists>rs. gw_routes gw = Some rs \<and> (\<forall>r \<in> set rs. \<not> prefix (path r) url))) \<and>
          \<not> gw_serve gw \<longrightarrow>
            httpHandler gw env req res = NotFound (send404 res) \<and> http_status (send404 res) = 404) \<and>
         ((req_url req = url0 \<and> query = None) \<or>
          (\<exists>q. req_url req = url0 @ CHR ''?'' # q \<and> query = Some (querystring_parse env q))) \<and>
         ((url0 = url \<and> \<not> endsWith url0 CHR ''/'') \<or> url0 = url @ ''/'')"
proof -
  have sel: "httpHandler gw env req res =
              ByAction (callAction env (rs ! i) (action_name url (path (rs ! i))) req res query)"
    if "gw_routes gw = Some rs" "i < length rs" "prefix (path (rs ! i)) url"
       "\<forall>j<i. \<not> prefix (path (rs ! j)) url" for rs i
    using that assms route_loop_first[OF that(2,3,4), of env req res query]
    by (simp add: httpHandler_def)
  have nf: "httpHandler gw env req res = NotFound (send404 res) \<and> http_status (send404 res) = 404"
    if "gw_routes gw = None \<or> (\<exists>rs. gw_routes gw = Some rs \<and> (\<forall>r \<in> set rs. \<not> prefix (path r) url))"
       "\<not> gw_serve gw"
    using that assms by (auto simp: httpHandler_def route_loop_none send404_status)
  have sp: "(req_url req = url0 \<and> query = None) \<or>
          (\<exists>q. req_url req = url0 @ CHR ''?'' # q \<and> query = Some (querystring_parse env q))"
    using split_url_shape[OF assms(1)] by blast
  have tr: "(url0 = url \<and> \<not> endsWith url0 CHR ''/'') \<or> url0 = url @ ''/''"
    using trim_slash_shape[of url0 url] assms(2) by simp
  from sel nf sp tr show ?thesis by blast
qed

theorem C1_dispatch_witness:
  "httpHandler gateway0 env0 (request0 ''GET'' ''/admin/users/list/?x=1'' []) response0 =
     ByAction (callAction env0 admin_route ''users.list''
                 (request0 ''GET'' ''/admin/users/list/?x=1'' []) response0 (Some [(''x'', JStr ''1'')])) \<and>
   httpHandler gateway0 env0 (request0 ''GET'' ''/users/1'' []) response0 =
     ByAction (callAction env0 root_route ''users.1'' (request0 ''GET'' ''/users/1'' []) response0 None) \<and>
   httpHandler (gateway0\<lparr>gw_routes := Some [admin_route]\<rparr>) env0 (request0 ''GET'' ''/users/1'' []) response0 =
     NotFound (send404 response0) \<and>
   http_status (send404 response0) = 404"
  using C1_dispatch[of env0 "request0 ''GET'' ''/admin/users/list/?x=1'' []" "''/admin/users/list/''"
      "Some [(''x'', JStr ''1'')]" "''/admin/users/list''" gateway0 response0]
  by (simp add: httpHandler_def split_url_def indexOf_def trim_slash_def endsWith_def startsWith_def
      gateway0_def env0_def request0_def admin_route_def root_route_def action_name_def replace_all_def
      pairs_of_def send404_status)

text \<open>
  C2. Under a matched route the candidate action name is the remainder of the URL after
  the route's path and one optional leading slash, with the first tilde replaced by a
  dollar sign and every slash by a dot: it has the remainder's length, and at each
  position a slash has become a dot, a tilde with no tilde before it a dollar sign, and
  every other character is kept. The remainder \<^verbatim>\<open>users/~node/health\<close> gives
  \<^verbatim>\<open>users.$node.health\<close>.
\<close>

theorem C2_action_name:
  assumes "url = rpath @ rest"
    and "rest = CHR ''/'' # rem \<or> (rest = rem \<and> \<not> prefix ''/'' rem)"
  shows "length (action_name url rpath) = length rem \<and>
         (\<forall>i < length rem.
            action_name url rpath ! i =
              (if rem ! i = CHR ''/'' then CHR ''.''
               else if rem ! i = CHR ''~'' \<and> (\<forall>j<i. rem ! j \<noteq> CHR ''~'') then CHR ''$''
               else rem ! i)) \<and>
         action_name (rpath @ ''/users/~node/health'') rpath = ''users.$node.health''"
proof -
  note an = action_name_remainder[OF assms]
  have len: "length (action_name url rpath) = length rem"
    by (simp add: an replace_all_def replace_first_length)
  have nth: "\<forall>i < length rem.
            action_name url rpath ! i =
              (if rem ! i = CHR ''/'' then CHR ''.''
               else if rem ! i = CHR ''~'' \<and> (\<forall>j<i. rem ! j \<noteq> CHR ''~'') then CHR ''$''
               else rem ! i)"
    by (auto simp add: an replace_all_def replace_first_length replace_first_nth)
  have ex: "action_name (rpath @ ''/users/~node/health'') rpath = ''users.$node.health''"
    by (simp add: action_name_def Let_def startsWith_def replace_all_def)
  from len nth ex show ?thesis by blast
qed

theorem C2_action_name_witness:
  "action_name ''/api/a~/~b'' ''/api'' = ''a$.~b'' \<and>
   action_name ''/api//x'' ''/api'' = ''.x'' \<and>
   action_name ''/api/users/~node/health'' ''/api'' = ''users.$node.health''"
  using C2_action_name[of "''/api/a~/~b''" "''/api''" "''/a~/~b''" "''a~/~b''"]
  by (simp add: action_name_def Let_def startsWith_def replace_all_def)

text \<open>
  C3. When the route's whitelist is an array, \<^verbatim>\<open>checkWhitelist\<close> returns true exactly
  when some string mask matches the action name under the glob matcher called with the
  one option \<^verbatim>\<open>unixify: false\<close> (so with the matcher's default case sensitivity), or some
  regular expression mask tests true on it; a mask of any other kind never counts. The
  result is the same for every reordering of the masks. A route without a whitelist
  passes the whitelist stage with every action, and a route has a whitelist exactly when
  the configured value is an array.
\<close>

theorem C3_checkWhitelist:
  "(whitelist route = JArr masks \<longrightarrow>
      checkWhitelist env route (JStr action) =
        Inr ((\<exists>p. JStr p \<in> set masks \<and> nanomatch_isMatch env action p [(''unixify'', JBool False)]) \<or>
             (\<exists>r. JRegExp r \<in> set masks \<and> regexp_test env r action)) \<and>
      (\<forall>route' masks'. whitelist route' = JArr masks' \<and> mset masks' = mset masks \<longrightarrow>
          checkWhitelist env route' (JStr action) = checkWhitelist env route (JStr action))) \<and>
   (\<not> hasWhitelist route \<longrightarrow> whitelist_stage env route st = Inr st) \<and>
   (createRoute env cfg opts = Inr route \<longrightarrow>
      whitelist route = opt_whitelist opts \<and>
      hasWhitelist route = (\<exists>ms. opt_whitelist opts = JArr ms))"
proof -
  have a: "checkWhitelist env route (JStr action) =
        Inr ((\<exists>p. JStr p \<in> set masks \<and> nanomatch_isMatch env action p [(''unixify'', JBool False)]) \<or>
             (\<exists>r. JRegExp r \<in> set masks \<and> regexp_test env r action))"
    if "whitelist route = JArr masks"
    using checkWhitelist_array[OF that] .
  have b: "checkWhitelist env route' (JStr action) = checkWhitelist env route (JStr action)"
    if "whitelist route = JArr masks" "whitelist route' = JArr masks'" "mset masks' = mset masks"
    for route' masks'
  proof -
    have "set masks' = set masks" using that(3) by (metis set_mset_mset)
    then show ?thesis
      using checkWhitelist_array[OF that(1)] checkWhitelist_array[OF that(2)] by simp
  qed
  have c: "whitelist_stage env route st = Inr st" if "\<not> hasWhitelist route"
    using that by (simp add: whitelist_stage_def)
  have d: "whitelist route = opt_whitelist opts \<and>
      hasWhitelist route = (\<exists>ms. opt_whitelist opts = JArr ms)"
    if "createRoute env cfg opts = Inr route"
    using that by (cases "opt_whitelist opts")
      (auto simp: createRoute_def Let_def split: option.splits sum.splits)
  from a b c d show ?thesis by blast
qed

theorem C3_checkWhitelist_witness:
  "checkWhitelist env0 admin_route (JStr ''users.list'') = Inr True \<and>
   checkWhitelist env0 admin_route (JStr ''math.add'') = Inr True \<and>
   checkWhitelist env0 admin_route (JStr ''posts.list'') = Inr False \<and>
   checkWhitelist env0 (admin_route\<lparr>whitelist := JArr [JRegExp (RegExp ''^math'' []), JStr ''users.*'', JNum 7]\<rparr>)
      (JStr ''users.list'') = Inr True \<and>
   whitelist_stage env0 root_route (initial ''posts.list'' (request0 ''GET'' ''/posts/list'' []) response0)
     = Inr (initial ''posts.list'' (request0 ''GET'' ''/posts/list'' []) response0)"
proof -
  have w: "whitelist admin_route = JArr [JStr ''users.*'', JNum 7, JRegExp (RegExp ''^math'' [])]"
    by (simp add: admin_route_def)
  have n: "\<not> hasWhitelist root_route"
    by (simp add: root_route_def)
  from C3_checkWhitelist[of admin_route "[JStr ''users.*'', JNum 7, JRegExp (RegExp ''^math'' [])]"
      env0 "''users.list''"] w
  have u: "checkWhitelist env0 admin_route (JStr ''users.list'') =
        Inr ((\<exists>p. JStr p \<in> set [JStr ''users.*'', JNum 7, JRegExp (RegExp ''^math'' [])] \<and>
                  nanomatch_isMatch env0 ''users.list'' p [(''unixify'', JBool False)]) \<or>
             (\<exists>r. JRegExp r \<in> set [JStr ''users.*'', JNum 7, JRegExp (RegExp ''^math'' [])] \<and>
                  regexp_test env0 r ''users.list''))"
    by blast
  have m: "nanomatch_isMatch env0 ''users.list'' ''users.*'' [(''unixify'', JBool False)]"
    by code_simp
  have 1: "checkWhitelist env0 admin_route (JStr ''users.list'') = Inr True"
    unfolding u using m by auto
  have 2: "checkWhitelist env0 admin_route (JStr ''math.add'') = Inr True"
    by code_simp
  have 3: "checkWhitelist env0 admin_route (JStr ''posts.list'') = Inr False"
    by code_simp
  have 4: "checkWhitelist env0 (admin_route\<lparr>whitelist := JArr [JRegExp (RegExp ''^math'' []), JStr ''users.*'', JNum 7]\<rparr>)
      (JStr ''users.list'') = Inr True"
    by code_simp
  from C3_checkWhitelist[of root_route _ env0 _
      "initial ''posts.list'' (request0 ''GET'' ''/posts/list'' []) response0"] n
  have 5: "whitelist_stage env0 root_route (initial ''posts.list'' (request0 ''GET'' ''/posts/list'' []) response0)
     = Inr (initial ''posts.list'' (request0 ''GET'' ''/posts/list'' []) response0)"
    by blast
  from 1 2 3 4 5 show ?thesis by blast
qed




text \<open>
  C5. The body parsing stage leaves the state as it is unless the method is POST, PUT or
  PATCH and the route has at least one parser. Otherwise the parsers are called in their
  order, each on the request as the one before it left it. When the parser at some
  position is the first to fail, the stage rejects with the \<^verbatim>\<open>InvalidRequestBodyError\<close>
  made of that failure's body and message, and exactly the parsers up to that position
  were called: none after it. When none fails, all were called once, in order. A rejection
  of the stage is what \<^verbatim>\<open>callAction\<close> hands to its error handler. Every list of parsers
  is in one of the two cases: all succeed, or one is the first to fail.
\<close>

theorem C5_body_parsers:
  "(\<not> (req_method (st_req st) \<in> body_methods \<and> (\<exists>ps. parsers route = Some ps \<and> ps \<noteq> [])) \<longrightarrow>
      parse_stage env route st = Inr st) \<and>
   (req_method (st_req st) \<in> body_methods \<and> parsers route = Some (pre @ p # post) \<and>
    run_ok pre (st_req st) = Some req1 \<and> p req1 = (Some e, req2) \<longrightarrow>
      parse_stage env route st =
        Inl (InvalidRequestBodyError env (perr_body e) (perr_message e),
             st\<lparr>st_req := req2, st_parsers_run := st_parsers_run st @ [0..<Suc (length pre)]\<rparr>)) \<and>
   (req_method (st_req st) \<in> body_methods \<and> parsers route = Some ps \<and> ps \<noteq> [] \<and>
    run_ok ps (st_req st) = Some req' \<longrightarrow>
      parse_stage env route st =
        Inr (st\<lparr>st_req := req', st_parsers_run := st_parsers_run st @ [0..<length ps]\<rparr>)) \<and>
   (and_then (alias_stage route (initial a req res)) (whitelist_stage env route) = Inr st \<and>
    parse_stage env route st = Inl (err, st') \<longrightarrow>
      callAction env route a req res query = st'\<lparr>st_res := error_handler err (st_res st')\<rparr>) \<and>
   ((\<exists>r. run_ok qs (st_req st) = Some r) \<or>
    (\<exists>pre p post req1 e req2.
        qs = pre @ p # post \<and> run_ok pre (st_req st) = Some req1 \<and> p req1 = (Some e, req2)))"
proof -
  have noop: "parse_stage env route st = Inr st"
    if "\<not> (req_method (st_req st) \<in> body_methods \<and> (\<exists>ps. parsers route = Some ps \<and> ps \<noteq> []))"
    using that by (auto simp: parse_stage_def body_methods_def split: option.splits)
  have fail: "parse_stage env route st =
        Inl (InvalidRequestBodyError env (perr_body e) (perr_message e),
             st\<lparr>st_req := req2, st_parsers_run := st_parsers_run st @ [0..<Suc (length pre)]\<rparr>)"
    if "req_method (st_req st) \<in> body_methods" "parsers route = Some (pre @ p # post)"
       "run_ok pre (st_req st) = Some req1" "p req1 = (Some e, req2)"
    using that mapSeries_fail[of pre st req1 p e req2 env post 0]
    by (simp add: parse_stage_def body_methods_def)
  have ok: "parse_stage env route st =
        Inr (st\<lparr>st_req := req', st_parsers_run := st_parsers_run st @ [0..<length ps]\<rparr>)"
    if "req_method (st_req st) \<in> body_methods" "parsers route = Some ps" "ps \<noteq> []"
       "run_ok ps (st_req st) = Some req'"
    using that mapSeries_ok[of ps st req' env 0]
    by (simp add: parse_stage_def body_methods_def)
  have rej: "callAction env route a req res query = st'\<lparr>st_res := error_handler err (st_res st')\<rparr>"
    if "and_then (alias_stage route (initial a req res)) (whitelist_stage env route) = Inr st"
       "parse_stage env route st = Inl (err, st')"
    using callAction_rejected[OF pipeline_parse_rejected[OF that]] .
  from noop fail ok rej run_ok_dichotomy[of qs "st_req st"] show ?thesis by blast
qed

theorem C5_body_parsers_witness:
  "parse_stage env0 (root_route\<lparr>parsers := Some [urlencoded_parser, json_parser, urlencoded_parser]\<rparr>)
     (initial ''users.create'' (request0 ''POST'' ''/users/create'' ''bad'') response0) =
   Inl (InvalidRequestBodyError env0 (JStr ''bad'') (JStr ''Unexpected token''),
        (initial ''users.create'' (request0 ''POST'' ''/users/create'' ''bad'') response0)
          \<lparr>st_parsers_run := [0, 1]\<rparr>) \<and>
   parse_stage env0 (root_route\<lparr>parsers := Some [urlencoded_parser, json_parser, urlencoded_parser]\<rparr>)
     (initial ''users.create'' (request0 ''GET'' ''/users/create'' ''bad'') response0) =
   Inr (initial ''users.create'' (request0 ''GET'' ''/users/create'' ''bad'') response0) \<and>
   parse_stage env0 root_route
     (initial ''users.create'' (request0 ''PUT'' ''/users/create'' ''{name:a}'') response0) =
   Inr ((initial ''users.create'' (request0 ''PUT'' ''/users/create'' ''{name:a}'') response0)
          \<lparr>st_req := (request0 ''PUT'' ''/users/create'' ''{name:a}'')\<lparr>req_body := JObj [(''name'', JStr ''a'')]\<rparr>,
           st_parsers_run := [0, 1]\<rparr>)"
  using C5_body_parsers[where st = "initial ''users.create'' (request0 ''POST'' ''/users/create'' ''bad'') response0"
      and route = "root_route\<lparr>parsers := Some [urlencoded_parser, json_parser, urlencoded_parser]\<rparr>"
      and env = env0 and pre = "[urlencoded_parser]" and p = json_parser and post = "[urlencoded_parser]"
      and ?req1.0 = "request0 ''POST'' ''/users/create'' ''bad''"
      and e = "\<lparr>perr_body = JStr ''bad'', perr_message = JStr ''Unexpected token''\<rparr>"
      and ?req2.0 = "request0 ''POST'' ''/users/create'' ''bad''"]
  by (simp add: parse_stage_def initial_def request0_def root_route_def json_parser_def
      urlencoded_parser_def body_methods_def env0_def)






text \<open>
  C8. When the route has a whitelist and the action name left by alias resolution fails
  \<^verbatim>\<open>checkWhitelist\<close>, \<^verbatim>\<open>callAction\<close> ends in the error handler with the service-not-found
  error for that name: no body parser was called, the request is untouched, no action
  was invoked, the status written is 404 and the body is the JSON of the error's name,
  message, code and data, where the message contains the action name.
\<close>

theorem C8_whitelist_rejects:
  assumes "alias_stage route (initial a req res) = Inr st"
    and "hasWhitelist route"
    and "checkWhitelist env route (st_actionName st) = Inr False"
  shows "callAction env route a req res query =
           st\<lparr>st_res := error_handler
                 (ServiceNotFoundError (not_available (st_actionName st)) (st_actionName st)) res\<rparr> \<and>
         st_parsers_run (callAction env route a req res query) = [] \<and>
         st_invoked (callAction env route a req res query) = [] \<and>
         st_req (callAction env route a req res query) = req \<and>
         http_status (st_res (callAction env route a req res query)) = 404 \<and>
         res_head (st_res (callAction env route a req res query)) =
           Some (404, [(''Content-type'', JStr ''application/json'')]) \<and>
         res_body (st_res (callAction env route a req res query)) =
           Json (JObj [(''name'', JStr ''ServiceNotFoundError''),
                       (''message'', JStr (not_available (st_actionName st))),
                       (''code'', JNum 404),
                       (''data'', JObj [(''action'', st_actionName st)])]) (Some 2) \<and>
         sublist (ToString (st_actionName st)) (not_available (st_actionName st))"
proof -
  let ?err = "ServiceNotFoundError (not_available (st_actionName st)) (st_actionName st)"
  from alias_stage_Inr[OF assms(1)] obtain n where st: "st = (initial a req res)\<lparr>st_actionName := n\<rparr>"
    by blast
  have "whitelist_stage env route st = Inl (?err, st)"
    using assms(2,3) by (simp add: whitelist_stage_def)
  then have "pipeline env route query (initial a req res) = Inl (?err, st)"
    using assms(1) by (simp add: pipeline_def and_then_def)
  then have ca: "callAction env route a req res query = st\<lparr>st_res := error_handler ?err (st_res st)\<rparr>"
    by (rule callAction_rejected)
  have res: "st_res st = res" "st_parsers_run st = []" "st_invoked st = []" "st_req st = req"
    by (simp_all add: st initial_def)
  have code: "error_code ?err = 404"
    by (simp add: error_code_def ServiceNotFoundError_def)
  have hs: "error_headers ?err = [(''Content-type'', JStr ''application/json'')]"
    by (simp add: error_headers_def ServiceNotFoundError_def)
  have pk: "pick_error ?err = [(''name'', JStr ''ServiceNotFoundError''),
                       (''message'', JStr (not_available (st_actionName st))),
                       (''code'', JNum 404),
                       (''data'', JObj [(''action'', st_actionName st)])]"
    by (simp add: pick_error_def picked_def ServiceNotFoundError_def)
  show ?thesis
    using not_available_names[of "st_actionName st"]
    by (simp add: ca res error_handler_written to_int32_small code hs pk)
qed

theorem C8_whitelist_rejects_witness:
  "st_parsers_run (callAction env0 (admin_route\<lparr>whitelist := JArr [JStr ''posts.*'']\<rparr>) ''comments.list''
       (request0 ''POST'' ''/admin/comments/list'' ''{name:a}'') response0 None) = [] \<and>
   http_status (st_res (callAction env0 (admin_route\<lparr>whitelist := JArr [JStr ''posts.*'']\<rparr>) ''comments.list''
       (request0 ''POST'' ''/admin/comments/list'' ''{name:a}'') response0 None)) = 404 \<and>
   res_body (st_res (callAction env0 (admin_route\<lparr>whitelist := JArr [JStr ''posts.*'']\<rparr>) ''comments.list''
       (request0 ''POST'' ''/admin/comments/list'' ''{name:a}'') response0 None)) =
     Json (JObj [(''name'', JStr ''ServiceNotFoundError''),
                 (''message'', JStr (not_available (JStr ''comments.list''))),
                 (''code'', JNum 404),
                 (''data'', JObj [(''action'', JStr ''comments.list'')])]) (Some 2)"
proof -
  let ?route = "admin_route\<lparr>whitelist := JArr [JStr ''posts.*'']\<rparr>"
  let ?st = "initial ''comments.list'' (request0 ''POST'' ''/admin/comments/list'' ''{name:a}'') response0"
  have h_alias: "alias_stage ?route ?st = Inr ?st"
    by code_simp
  have h_listed: "hasWhitelist ?route"
    by (simp add: admin_route_def)
  have name: "st_actionName ?st = JStr ''comments.list''"
    by (simp add: initial_def)
  have h_denied: "checkWhitelist env0 ?route (st_actionName ?st) = Inr False"
    unfolding name by code_simp
  from C8_whitelist_rejects[OF h_alias h_listed h_denied, of None, unfolded name] show ?thesis
    by blast
qed

text \<open>
  C9 fails as stated: a route configured with the path \<^verbatim>\<open>/admin/\<close> is created with
  exactly that path, trailing slash included.
\<close>

theorem C9_counterexample:
  "\<not> isl (createRoute env0 settings0 (admin_opts\<lparr>opt_path := Some ''/admin/''\<rparr>)) \<and>
   path (projr (createRoute env0 settings0 (admin_opts\<lparr>opt_path := Some ''/admin/''\<rparr>))) = ''/admin/'' \<and>
   endsWith (path (projr (createRoute env0 settings0 (admin_opts\<lparr>opt_path := Some ''/admin/''\<rparr>)))) CHR ''/''"
  by (simp add: createRoute_def env0_def settings0_def admin_opts_def or_empty_def endsWith_def)

text \<open>
  C9, amended. Every route that \<^verbatim>\<open>createRoute\<close> constructs has a non-empty path prefix:
  the global path setting followed by the route's own path, each as configured and
  nothing removed (a trailing slash of the route's path stays), or \<^verbatim>\<open>/\<close> when neither
  is configured or both are empty. The routes of the gateway are the routes so
  constructed from the configured ones, one for one and in their order.
\<close>

theorem C9_route_path:
  "(createRoute env st opts = Inr r \<longrightarrow>
      path r \<noteq> [] \<and>
      (or_empty (settings_path st) = [] \<and> or_empty (opt_path opts) = [] \<longrightarrow> path r = ''/'') \<and>
      (or_empty (settings_path st) @ or_empty (opt_path opts) \<noteq> [] \<longrightarrow>
         path r = or_empty (settings_path st) @ or_empty (opt_path opts)) \<and>
      (opt_path opts = Some (p @ ''/'') \<longrightarrow> endsWith (path r) CHR ''/'')) \<and>
   (created env st = Inr gw \<and> settings_routes st = Some ropts \<longrightarrow>
      (\<exists>rs. gw_routes gw = Some rs \<and> length rs = length ropts \<and>
            (\<forall>i<length ropts. createRoute env st (ropts ! i) = Inr (rs ! i))))"
proof -
  have one: "path r \<noteq> [] \<and>
      (or_empty (settings_path st) = [] \<and> or_empty (opt_path opts) = [] \<longrightarrow> path r = ''/'') \<and>
      (or_empty (settings_path st) @ or_empty (opt_path opts) \<noteq> [] \<longrightarrow>
         path r = or_empty (settings_path st) @ or_empty (opt_path opts)) \<and>
      (opt_path opts = Some (p @ ''/'') \<longrightarrow> endsWith (path r) CHR ''/'')"
    if "createRoute env st opts = Inr r"
    using createRoute_path[OF that] by (auto simp: or_empty_def endsWith_def)
  from one created_routes[of env st gw ropts] show ?thesis by blast
qed

theorem C9_route_path_witness:
  "createRoute env0 settings0 admin_opts = Inr admin_route \<and>
   path admin_route = ''/admin'' \<and>
   path (projr (createRoute env0 settings0 (admin_opts\<lparr>opt_path := None\<rparr>))) = ''/'' \<and>
   created env0 (settings0\<lparr>settings_routes := Some [admin_opts]\<rparr>) =
     Inr \<lparr>gw_routes = Some [admin_route], gw_serve = False\<rparr>"
proof -
  have c: "createRoute env0 settings0 admin_opts = Inr admin_route"
    by (simp add: createRoute_def env0_def settings0_def admin_opts_def admin_route_def or_empty_def)
  have d: "path (projr (createRoute env0 settings0 (admin_opts\<lparr>opt_path := None\<rparr>))) = ''/''"
    by (simp add: createRoute_def env0_def settings0_def admin_opts_def or_empty_def)
  have e: "created env0 (settings0\<lparr>settings_routes := Some [admin_opts]\<rparr>) =
     Inr \<lparr>gw_routes = Some [admin_route], gw_serve = False\<rparr>"
    by (simp add: created_def createRoute_def env0_def settings0_def admin_opts_def admin_route_def
        or_empty_def)
  from C9_route_path[of env0 settings0 admin_opts admin_route "''/adm''"] c
  have "path admin_route = ''/admin''"
    by (simp add: settings0_def admin_opts_def or_empty_def)
  with c d e show ?thesis by blast
qed




end
